theory Spec2Isabelle
  imports Complex_Main "HOL-Library.Word"
begin

unbundle bit_operations_syntax

section \<open>Machine integers and solver symbols\<close>

text \<open>
  The source (\<^verbatim>\<open>src/src/tag_graph.cpp\<close>) computes with C++ \<^verbatim>\<open>int\<close> and
  \<^verbatim>\<open>unsigned int\<close>, both 32 bits wide. Both are modelled as \<open>32 word\<close>: arithmetic
  wraps modulo \<open>2 ^ 32\<close>, and the order \<open><\<close> on words is the unsigned one, which is what
  C++ uses whenever an \<^verbatim>\<open>int\<close> meets an \<^verbatim>\<open>unsigned int\<close> operand (the \<^verbatim>\<open>int\<close> is
  converted to unsigned first). Widening an \<^verbatim>\<open>int\<close> to the 64-bit symbol index is the
  sign extension \<open>scast\<close>; widening an \<^verbatim>\<open>unsigned int\<close> is the zero extension \<open>ucast\<close>.
\<close>

type_synonym cint = "32 word"
type_synonym cuint = "32 word"

text \<open>
  A \<^verbatim>\<open>gtsam::Symbol\<close> is a character together with a 64-bit index. A \<^verbatim>\<open>gtsam::Key\<close>
  is one 64-bit scalar: the value store and the factors are addressed by keys.
\<close>

datatype Symbol = Symbol (chr: "8 word") (index: "64 word")

type_synonym Key = "64 word"

text \<open>Every \<^verbatim>\<open>throw std::runtime_error(...)\<close> of the file, the
  \<^verbatim>\<open>std::invalid_argument\<close> of the solver library's conversion of a symbol into a
  key, and the two exceptions that \<^verbatim>\<open>gtsam::Values::at\<close> documents, as values.\<close>

datatype Error =
    TagIdExceedsMax cint
  | CamIdExceedsMax cint
  | BodyIdxExceedsMax cint
  | SymbolIndexTooLarge Symbol
  | ValuesKeyDoesNotExist Key
  | ValuesIncorrectType Key

text \<open>
  The conversion of a symbol into a key (\<^verbatim>\<open>gtsam::Symbol::key()\<close>, which C++ applies
  wherever a symbol is passed for a key): the key holds the character in its upper 8
  bits and the index in its lower 56 bits, and the conversion throws when the index
  does not fit 56 bits. The library is outside the repository; this is its documented
  behaviour.
\<close>

definition indexMask :: "64 word" where
  "indexMask = mask 56"

definition Symbol_pack :: "Symbol \<Rightarrow> Key" where
  "Symbol_pack symb = push_bit 56 (ucast (chr symb)) OR index symb"

definition Symbol_key :: "Symbol \<Rightarrow> Error + Key" where
  "Symbol_key symb =
     (if indexMask < index symb then Inl (SymbolIndexTooLarge symb)
      else Inr (Symbol_pack symb))"

definition MAX_TAG_ID :: cuint where
  "MAX_TAG_ID = 255"

definition MAX_CAM_ID :: cuint where
  "MAX_CAM_ID = 8"

definition MAX_BODY_ID :: cuint where
  "MAX_BODY_ID = of_char (CHR ''Z'') - of_char (CHR ''A'') - 1"

section \<open>KeySpace: the four encoders and the corner decoder\<close>

text \<open>\<^verbatim>\<open>sym_T_b_o\<close> (lines 32-34): the tag-to-body key. The function has no bounds
  check and no \<^verbatim>\<open>throw\<close>; the result type is the common one of the encoders so that
  "does not fail" is a statement about a value.\<close>

definition sym_T_b_o :: "cint \<Rightarrow> Error + Symbol" where
  "sym_T_b_o tagId = Inr (Symbol (of_char (CHR ''t'')) (scast tagId))"

text \<open>\<^verbatim>\<open>sym_X_w_i\<close> (lines 36-42): the world-corner key. The guard compares the
  \<^verbatim>\<open>int\<close> tag id with the unsigned constant, so it is the unsigned comparison; the index
  is computed in \<^verbatim>\<open>unsigned int\<close> and wraps.\<close>

definition sym_X_w_i :: "cint \<Rightarrow> cint \<Rightarrow> cuint \<Rightarrow> Error + Symbol" where
  "sym_X_w_i tagId corner frame =
     (if MAX_TAG_ID < tagId then Inl (TagIdExceedsMax tagId)
      else Inr (Symbol (of_char (CHR ''w''))
                  (ucast (frame * MAX_TAG_ID * 4 + tagId * 4 + corner))))"

text \<open>\<^verbatim>\<open>sym_T_c_t\<close> (lines 44-49): the camera pose key; the character is
  \<^verbatim>\<open>'a' + camId\<close>, computed in \<^verbatim>\<open>int\<close> and narrowed to one byte.\<close>

definition sym_T_c_t :: "cint \<Rightarrow> cuint \<Rightarrow> Error + Symbol" where
  "sym_T_c_t camId frame_num =
     (if MAX_CAM_ID \<le> camId then Inl (CamIdExceedsMax camId)
      else Inr (Symbol (ucast (of_char (CHR ''a'') + camId)) (ucast frame_num)))"

text \<open>\<^verbatim>\<open>sym_T_w_b\<close> (lines 51-56): the body pose key.\<close>

definition sym_T_w_b :: "cint \<Rightarrow> cuint \<Rightarrow> Error + Symbol" where
  "sym_T_w_b bodyIdx frame_num =
     (if MAX_BODY_ID \<le> bodyIdx then Inl (BodyIdxExceedsMax bodyIdx)
      else Inr (Symbol (ucast (of_char (CHR ''A'') + bodyIdx)) (ucast frame_num)))"

text \<open>\<^verbatim>\<open>X_w_i_sym_to_index\<close> (lines 58-65): the decoder, as a function of the symbol
  that its key argument unpacks to. \<^verbatim>\<open>int idx = sym.index()\<close>
  narrows the 64-bit index to 32 bits; the divisions have an unsigned operand and are
  unsigned. The result is the triple (frame, tag id, corner): the returned frame number
  and the two values written through the pointers.\<close>

definition X_w_i_sym_to_index :: "Symbol \<Rightarrow> cuint \<times> cint \<times> cint" where
  "X_w_i_sym_to_index k =
     (let idx = (ucast (index k) :: cint);
          frame_num = idx div (4 * MAX_TAG_ID);
          tagId = (idx - frame_num * 4 * MAX_TAG_ID) div 4;
          corner = (idx - frame_num * 4 * MAX_TAG_ID) mod 4
      in (frame_num, tagId, corner))"

section \<open>Geometry, noise models and pose estimates\<close>

text \<open>
  The solver library's value types. The graph only stores them and hands them back, so
  they are plain data here; a C++ \<^verbatim>\<open>double\<close> that is only stored is a \<open>real\<close>.
\<close>

datatype Point2 = Point2 real real

datatype Point3 = Point3 real real real

datatype Rot3 = Rot3 Point3 Point3 Point3

datatype Pose3 = Pose3 Rot3 Point3

datatype NoiseModel = IsotropicSigma nat real | GaussianCovariance "real list"

text \<open>\<^verbatim>\<open>PoseNoise\<close> is a shared pointer to a noise model: \<open>None\<close> is the null pointer.\<close>

type_synonym PoseNoise = "NoiseModel option"

datatype Cal3DS2U = Cal3DS2U "real list"

datatype Cal3FS2 = Cal3FS2 "real list"

datatype Calibration = RadTan Cal3DS2U | Equidistant Cal3FS2

text \<open>
  Modelled from the spec: the class \<^verbatim>\<open>PoseEstimate\<close> is declared in
  \<^verbatim>\<open>tagslam/pose_estimate.h\<close>, which is not among the sources. The spec gives it as
  "pose + residual + iteration count + optional covariance + validity flag";
  \<^verbatim>\<open>getPose\<close>, \<^verbatim>\<open>getNoise\<close> and \<^verbatim>\<open>isValid\<close> read the fields.
\<close>

record PoseEstimate =
  pe_pose :: Pose3
  pe_err :: real
  pe_numIter :: cint
  pe_noise :: PoseNoise
  pe_valid :: bool

definition Pose3_identity :: Pose3 where
  "Pose3_identity =
     Pose3 (Rot3 (Point3 1 0 0) (Point3 0 1 0) (Point3 0 0 1)) (Point3 0 0 0)"

text \<open>
  Modelled from the spec: the default constructor \<^verbatim>\<open>PoseEstimate()\<close>, missing with the
  header. The source says of \<^verbatim>\<open>PoseEstimate pe;\<close> that it "defaults to invalid"
  (line 324), and the spec that a query returns an explicit not-found indicator. The
  residual and iteration count of a default estimate are not used by any function here.
\<close>

definition PoseEstimate_default :: PoseEstimate where
  "PoseEstimate_default =
     \<lparr>pe_pose = Pose3_identity, pe_err = 0, pe_numIter = 0, pe_noise = None,
      pe_valid = False\<rparr>"

text \<open>
  Modelled from the spec: the constructor \<^verbatim>\<open>PoseEstimate(pose, err, numIter)\<close>, missing
  with the header; an estimate built from a stored pose is a valid one.
\<close>

definition PoseEstimate_of :: "Pose3 \<Rightarrow> real \<Rightarrow> cint \<Rightarrow> PoseEstimate" where
  "PoseEstimate_of p e n =
     \<lparr>pe_pose = p, pe_err = e, pe_numIter = n, pe_noise = None, pe_valid = True\<rparr>"

section \<open>Cameras, bodies, tags and measurements\<close>

text \<open>
  The classes \<^verbatim>\<open>Camera\<close>, \<^verbatim>\<open>RigidBody\<close>, \<^verbatim>\<open>Tag\<close> and \<^verbatim>\<open>DistanceMeasurement\<close> are
  declared in headers that are not among the sources; the records hold the members that
  \<^verbatim>\<open>tag_graph.cpp\<close> reads, under the member's name with the record's prefix.
  \<^verbatim>\<open>getObjectCorner(i)\<close> and \<^verbatim>\<open>getImageCorners()[i]\<close> are taken as functions of the
  corner index.
\<close>

record Camera =
  cam_name :: string
  cam_index :: cint
  cam_isStatic :: bool
  cam_radtanModel :: "Cal3DS2U option"
  cam_equidistantModel :: "Cal3FS2 option"
  cam_poseEstimate :: PoseEstimate

record RigidBody =
  rb_name :: string
  rb_index :: cint
  rb_isStatic :: bool
  rb_hasPosePrior :: bool
  rb_poseEstimate :: PoseEstimate

record Tag =
  tag_id :: cint
  tag_poseEstimate :: PoseEstimate
  tag_hasKnownPose :: bool
  tag_getObjectCorner :: "cint \<Rightarrow> Point3"
  tag_getImageCorners :: "cint \<Rightarrow> Point2"


section \<open>The graph state\<close>

datatype Val = PoseValue Pose3 | PointValue Point3

type_synonym Values = "Key \<rightharpoonup> Val"

text \<open>
  A factor records what the source hands to the solver: a prior on one key; the
  reprojection expression over the body, tag and camera keys with the corner's local
  coordinate, the measured pixel and the pixel noise; the distance expression over the
  two corners' keys with the measured distance and its noise.
\<close>

datatype Factor =
    PriorFactor Key Pose3 PoseNoise
  | ReprojectionFactor Calibration Key Key Key Point3 Point2 NoiseModel
  | DistanceFactor Key Key Point3 Key Key Point3 real NoiseModel

text \<open>The lines written to \<^verbatim>\<open>std::cout\<close>, one constructor per message.\<close>

datatype Diagnostic =
    DuplicateTagId cint
  | NonRigidBodyTagMeasurement
  | AddingRbMeasurement cint cint
  | NoTagsFor string cuint
  | NoPoseEstimateForCam string cuint
  | AddingPriorForBody string
  | TagHasInvalidPose cint

text \<open>
  The members of \<^verbatim>\<open>TagGraph\<close> that the functions below touch, and the output stream.
  The class is declared in \<^verbatim>\<open>tagslam/tag_graph.h\<close>, not among the sources.
\<close>

record TagGraph =
  tg_values :: Values
  tg_optimizedValues :: Values
  tg_graph :: "Factor list"
  tg_numProjectionFactors :: cint
  tg_optimizerError :: real
  tg_optimizerIterations :: cint
  tg_pixelNoise :: NoiseModel
  tg_cout :: "Diagnostic list"

text \<open>
  \<^verbatim>\<open>TagGraph::TagGraph()\<close> (lines 67-69) sets the pixel noise; the value store and the
  factor collection start empty. The initial values of the three scalar members are
  given in the header, so they are parameters.
\<close>

definition TagGraph_new :: "cint \<Rightarrow> real \<Rightarrow> cint \<Rightarrow> TagGraph" where
  "TagGraph_new numProjectionFactors0 optimizerError0 optimizerIterations0 =
     \<lparr>tg_values = Map.empty, tg_optimizedValues = Map.empty, tg_graph = [],
      tg_numProjectionFactors = numProjectionFactors0,
      tg_optimizerError = optimizerError0,
      tg_optimizerIterations = optimizerIterations0,
      tg_pixelNoise = IsotropicSigma 2 1, tg_cout = []\<rparr>"

text \<open>\<^verbatim>\<open>values_.at<gtsam::Pose3>(key)\<close>: the library throws when the key is missing or
  holds a value of another type.\<close>

definition at_Pose3 :: "Values \<Rightarrow> Key \<Rightarrow> Error + Pose3" where
  "at_Pose3 vs k =
     (case vs k of
        None \<Rightarrow> Inl (ValuesKeyDoesNotExist k)
      | Some (PoseValue p) \<Rightarrow> Inr p
      | Some (PointValue _) \<Rightarrow> Inl (ValuesIncorrectType k))"

section \<open>Ingestion\<close>

text \<open>
  A member function that mutates the graph returns its outcome (\<open>Inl\<close> an exception
  that leaves it) together with the state as it is at that moment. Where the source
  passes a symbol to the value store or to an expression, the model converts it with
  \<open>Symbol_key\<close> at that place, so that the conversion's exception is a branch.

  \<^verbatim>\<open>TagGraph::addTags\<close> (lines 79-95). The symbol is converted first by
  \<^verbatim>\<open>values_.find\<close> (line 86). The loop body \<^verbatim>\<open>return\<close>s on a key that exists: the
  rest of the list is not visited.
\<close>

fun addTags :: "RigidBody \<Rightarrow> Tag list \<Rightarrow> TagGraph \<Rightarrow> (Error + unit) \<times> TagGraph" where
  "addTags rb [] s = (Inr (), s)"
| "addTags rb (tag # tags) s =
     (let tagPose = pe_pose (tag_poseEstimate tag);
          tagNoise = pe_noise (tag_poseEstimate tag)
      in case sym_T_b_o (tag_id tag) of
           Inl e \<Rightarrow> (Inl e, s)
         | Inr T_b_o_sym \<Rightarrow>
          (case Symbol_key T_b_o_sym of
             Inl e \<Rightarrow> (Inl e, s)
           | Inr T_b_o_key \<Rightarrow>
               if tg_values s T_b_o_key \<noteq> None
               then (Inr (), s\<lparr>tg_cout := tg_cout s @ [DuplicateTagId (tag_id tag)]\<rparr>)
               else addTags rb tags
                      (s\<lparr>tg_values := (tg_values s)(T_b_o_key \<mapsto> PoseValue tagPose),
                         tg_graph := tg_graph s @
                           (if tag_hasKnownPose tag
                            then [PriorFactor T_b_o_key tagPose tagNoise] else [])\<rparr>)))"


text \<open>
  \<^verbatim>\<open>TagGraph::observedTags\<close> (lines 221-279). First the body of the corner loop
  (lines 263-277): the factor added for corner \<open>i\<close>, none when the camera has neither
  model. Then the loop over the tags (lines 254-278): for a tag with a valid pose the
  tag-to-body symbol is converted when its expression is built (line 260), before the
  corners are visited; the body and camera symbols have been converted by
  \<^verbatim>\<open>values_.exists\<close> before the loop, so the loop takes their keys. Then the function.
\<close>

definition cornerFactor ::
  "Camera \<Rightarrow> Tag \<Rightarrow> Key \<Rightarrow> Key \<Rightarrow> Key \<Rightarrow> NoiseModel \<Rightarrow> cint \<Rightarrow> Factor list" where
  "cornerFactor cam tag T_b_o T_w_b T_w_c pixelNoise i =
     (case cam_radtanModel cam of
        Some cK \<Rightarrow>
          [ReprojectionFactor (RadTan cK) T_w_b T_b_o T_w_c
             (tag_getObjectCorner tag i) (tag_getImageCorners tag i) pixelNoise]
      | None \<Rightarrow>
          (case cam_equidistantModel cam of
             Some cK \<Rightarrow>
               [ReprojectionFactor (Equidistant cK) T_w_b T_b_o T_w_c
                  (tag_getObjectCorner tag i) (tag_getImageCorners tag i) pixelNoise]
           | None \<Rightarrow> []))"

fun observedTags_loop ::
  "Camera \<Rightarrow> Key \<Rightarrow> Key \<Rightarrow> Tag list \<Rightarrow> TagGraph \<Rightarrow> (Error + unit) \<times> TagGraph" where
  "observedTags_loop cam T_w_b_key T_w_c_key [] s = (Inr (), s)"
| "observedTags_loop cam T_w_b_key T_w_c_key (tag # tags) s =
     (if \<not> pe_valid (tag_poseEstimate tag)
      then observedTags_loop cam T_w_b_key T_w_c_key tags
             (s\<lparr>tg_cout := tg_cout s @ [TagHasInvalidPose (tag_id tag)]\<rparr>)
      else case sym_T_b_o (tag_id tag) of
             Inl e \<Rightarrow> (Inl e, s)
           | Inr T_b_o_sym \<Rightarrow>
            (case Symbol_key T_b_o_sym of
               Inl e \<Rightarrow> (Inl e, s)
             | Inr T_b_o \<Rightarrow>
                 observedTags_loop cam T_w_b_key T_w_c_key tags
                   (s\<lparr>tg_graph := tg_graph s @
                        concat (map (cornerFactor cam tag T_b_o T_w_b_key T_w_c_key
                                       (tg_pixelNoise s)) [0, 1, 2, 3])\<rparr>)))"

definition observedTags ::
  "Camera \<Rightarrow> RigidBody \<Rightarrow> Tag list \<Rightarrow> cuint \<Rightarrow> TagGraph \<Rightarrow> (Error + unit) \<times> TagGraph" where
  "observedTags cam rb tags frame_num s =
     (if tags = []
      then (Inr (), s\<lparr>tg_cout := tg_cout s @ [NoTagsFor (cam_name cam) frame_num]\<rparr>)
      else if \<not> pe_valid (cam_poseEstimate cam)
      then (Inr (),
            s\<lparr>tg_cout := tg_cout s @ [NoPoseEstimateForCam (cam_name cam) frame_num]\<rparr>)
      else if \<not> pe_valid (rb_poseEstimate rb)
      then (Inr (), s)
      else
        case sym_T_c_t (cam_index cam) (if cam_isStatic cam then 0 else frame_num) of
          Inl e \<Rightarrow> (Inl e, s)
        | Inr T_w_c_sym \<Rightarrow>
       (case Symbol_key T_w_c_sym of
          Inl e \<Rightarrow> (Inl e, s)
        | Inr T_w_c_key \<Rightarrow>
            let s1 = (if tg_values s T_w_c_key = None
                      then s\<lparr>tg_values := (tg_values s)
                              (T_w_c_key \<mapsto> PoseValue (pe_pose (cam_poseEstimate cam)))\<rparr>
                      else s)
            in (case sym_T_w_b (rb_index rb) (if rb_isStatic rb then 0 else frame_num) of
                 Inl e \<Rightarrow> (Inl e, s1)
               | Inr T_w_b_sym \<Rightarrow>
              (case Symbol_key T_w_b_sym of
                 Inl e \<Rightarrow> (Inl e, s1)
               | Inr T_w_b_key \<Rightarrow>
                   let pe = rb_poseEstimate rb;
                       s2 = (if tg_values s1 T_w_b_key = None
                             then let s1' = s1\<lparr>tg_values := (tg_values s1)
                                               (T_w_b_key \<mapsto> PoseValue (pe_pose pe))\<rparr>
                                  in if rb_isStatic rb \<and> rb_hasPosePrior rb
                                     then s1'\<lparr>tg_cout := tg_cout s1' @
                                                [AddingPriorForBody (rb_name rb)],
                                              tg_graph := tg_graph s1' @
                                                [PriorFactor T_w_b_key (pe_pose pe)
                                                   (pe_noise pe)]\<rparr>
                                     else s1'
                             else s1)
                   in observedTags_loop cam T_w_b_key T_w_c_key tags s2))))"

section \<open>Queries\<close>

text \<open>\<^verbatim>\<open>TagGraph::getCameraPose\<close> (lines 210-219); a \<^verbatim>\<open>const\<close> member.\<close>

definition getCameraPose :: "Camera \<Rightarrow> cuint \<Rightarrow> TagGraph \<Rightarrow> Error + PoseEstimate" where
  "getCameraPose cam frame_num s =
     (case sym_T_c_t (cam_index cam) (if cam_isStatic cam then 0 else frame_num) of
        Inl e \<Rightarrow> Inl e
      | Inr T_w_c_sym \<Rightarrow>
       (case Symbol_key T_w_c_sym of
          Inl e \<Rightarrow> Inl e
        | Inr T_w_c_key \<Rightarrow>
            if tg_values s T_w_c_key \<noteq> None
            then (case at_Pose3 (tg_values s) T_w_c_key of
                    Inl e \<Rightarrow> Inl e
                  | Inr p \<Rightarrow> Inr (PoseEstimate_of p 0 0))
            else Inr PoseEstimate_default))"

text \<open>\<^verbatim>\<open>TagGraph::getTagRelPose\<close> (lines 340-349); a \<^verbatim>\<open>const\<close> member. The third
  argument is what \<^verbatim>\<open>*pose\<close> holds at the call, the second component of the result
  what it holds afterwards.\<close>

definition getTagRelPose ::
  "RigidBody \<Rightarrow> cint \<Rightarrow> Pose3 \<Rightarrow> TagGraph \<Rightarrow> (Error + bool) \<times> Pose3" where
  "getTagRelPose rb tagId pose s =
     (case sym_T_b_o tagId of
        Inl e \<Rightarrow> (Inl e, pose)
      | Inr T_b_o_sym \<Rightarrow>
       (case Symbol_key T_b_o_sym of
          Inl e \<Rightarrow> (Inl e, pose)
        | Inr T_b_o_key \<Rightarrow>
            if tg_values s T_b_o_key \<noteq> None
            then (case at_Pose3 (tg_values s) T_b_o_key of
                    Inl e \<Rightarrow> (Inl e, pose)
                  | Inr p \<Rightarrow> (Inr True, p))
            else (Inr False, pose)))"

section \<open>Optimization\<close>

text \<open>
  The nonlinear solver is outside the repository. It is a parameter: from the factors,
  the initial values and the iteration cap it gives the result of \<^verbatim>\<open>lmo.optimize()\<close>,
  \<^verbatim>\<open>lmo.error()\<close> and \<^verbatim>\<open>lmo.iterations()\<close>.
\<close>

type_synonym Solver = "Factor list \<Rightarrow> Values \<Rightarrow> cint \<Rightarrow> Values \<times> real \<times> cint"

text \<open>\<^verbatim>\<open>TagGraph::tryOptimization\<close> (lines 302-319). Its only caller passes
  \<^verbatim>\<open>&optimizedValues_\<close> as \<^verbatim>\<open>result\<close>; the \<^verbatim>\<open>verbosity\<close> argument is not used by
  the body. \<^verbatim>\<open>numProjectionFactors_\<close> is compared and converted as a signed integer.
  The quotient and the product are taken over the reals: rounding is not modelled.\<close>

definition tryOptimization ::
  "Solver \<Rightarrow> Factor list \<Rightarrow> Values \<Rightarrow> cint \<Rightarrow> TagGraph \<Rightarrow> real \<times> TagGraph" where
  "tryOptimization lmo graph vs maxIter s =
     (case lmo graph vs maxIter of
        (result, error, iterations) \<Rightarrow>
          let ni = (if 0 <s tg_numProjectionFactors s
                    then 1 / real_of_int (sint (tg_numProjectionFactors s)) else 1);
              s' = s\<lparr>tg_optimizedValues := result,
                     tg_optimizerError := error * ni,
                     tg_optimizerIterations := iterations\<rparr>
          in (tg_optimizerError s', s'))"

text \<open>\<^verbatim>\<open>TagGraph::optimize\<close> (lines 383-390).\<close>

definition optimize :: "Solver \<Rightarrow> TagGraph \<Rightarrow> TagGraph" where
  "optimize lmo s =
     (case tryOptimization lmo (tg_graph s) (tg_values s) 100 s of
        (err, s1) \<Rightarrow> s1\<lparr>tg_values := tg_optimizedValues s1\<rparr>)"

section \<open>Names used in the statements\<close>

text \<open>
  The symbols and keys the statements talk about: what the encoders return for a tag
  id, for a body index and for a camera index at a time bucket, and the keys these
  symbols pack to.
\<close>

definition tagSym :: "cint \<Rightarrow> Symbol" where
  "tagSym tagId = projr (sym_T_b_o tagId)"

definition bodySym :: "cint \<Rightarrow> cuint \<Rightarrow> Symbol" where
  "bodySym bodyIdx frame_num = projr (sym_T_w_b bodyIdx frame_num)"

definition camSym :: "cint \<Rightarrow> cuint \<Rightarrow> Symbol" where
  "camSym camId frame_num = projr (sym_T_c_t camId frame_num)"

definition tagKey :: "Tag \<Rightarrow> Key" where
  "tagKey tag = Symbol_pack (tagSym (tag_id tag))"

definition bodyKey :: "cint \<Rightarrow> cuint \<Rightarrow> Key" where
  "bodyKey bodyIdx frame_num = Symbol_pack (bodySym bodyIdx frame_num)"

definition camKey :: "cint \<Rightarrow> cuint \<Rightarrow> Key" where
  "camKey camId frame_num = Symbol_pack (camSym camId frame_num)"

text \<open>The prior factor that \<^verbatim>\<open>addTags\<close> builds for a tag (line 92).\<close>

definition tagPrior :: "Tag \<Rightarrow> Factor" where
  "tagPrior tag =
     PriorFactor (tagKey tag) (pe_pose (tag_poseEstimate tag))
       (pe_noise (tag_poseEstimate tag))"

text \<open>The number of reprojection factors that a factor collection holds.\<close>

fun isReprojection :: "Factor \<Rightarrow> bool" where
  "isReprojection (ReprojectionFactor cK T_w_b T_b_o T_w_c X_o measured noise) = True"
| "isReprojection (PriorFactor k p noise) = False"
| "isReprojection (DistanceFactor k1 k2 X1 k3 k4 X2 d noise) = False"

definition numReprojection :: "Factor list \<Rightarrow> nat" where
  "numReprojection graph = length (filter isReprojection graph)"

section \<open>Concrete inputs\<close>

text \<open>A tag with a valid, externally known pose; a static body with a pose prior; a
  static camera with index 0 and the given radial-tangential model; a solver that
  returns the initial values with error 8 after 3 iterations.\<close>

definition tag_ex :: "cint \<Rightarrow> Tag" where
  "tag_ex i =
     \<lparr>tag_id = i, tag_poseEstimate = PoseEstimate_of Pose3_identity 0 0,
      tag_hasKnownPose = True, tag_getObjectCorner = (\<lambda>c. Point3 0 0 0),
      tag_getImageCorners = (\<lambda>c. Point2 0 0)\<rparr>"

definition rb_ex :: "cint \<Rightarrow> RigidBody" where
  "rb_ex i =
     \<lparr>rb_name = ''board'', rb_index = i, rb_isStatic = True, rb_hasPosePrior = True,
      rb_poseEstimate = PoseEstimate_of Pose3_identity 0 0\<rparr>"

definition cam_ex :: "Cal3DS2U option \<Rightarrow> Camera" where
  "cam_ex m =
     \<lparr>cam_name = ''cam0'', cam_index = 0, cam_isStatic = True, cam_radtanModel = m,
      cam_equidistantModel = None,
      cam_poseEstimate = PoseEstimate_of Pose3_identity 0 0\<rparr>"


definition lmo_ex :: Solver where
  "lmo_ex graph vs maxIter = (vs, 8, 3)"

text \<open>The graph after \<^verbatim>\<open>addTags\<close> of the tags 1 and 2 and one observation of tag 1
  by the camera with a radial-tangential model, starting from the empty graph with a
  projection-factor counter of 0.\<close>

definition graph_ex :: TagGraph where
  "graph_ex =
     snd (observedTags (cam_ex (Some (Cal3DS2U []))) (rb_ex 0) [tag_ex 1] 0
            (snd (addTags (rb_ex 0) [tag_ex 1, tag_ex 2] (TagGraph_new 0 0 0))))"

section \<open>Properties of the key space\<close>

text \<open>
  Claim C1. The claim: for every tag id in 0..255, corner in 0..3 and frame, decoding the
  key of the world-corner encoder gives the triple back, and the encoders are injective
  on their declared domains. The code accepts tag id 255 (the guard is
  \<^verbatim>\<open>tagId > MAX_TAG_ID\<close> with \<^verbatim>\<open>MAX_TAG_ID = 255\<close>) but strides frames by
  \<^verbatim>\<open>MAX_TAG_ID * 4 = 1020\<close>, which has room for the ids 0..254 only. Evaluated at
  tag 255, corner 0, frame 0: the key is the one of tag 0, corner 0, frame 1, and the
  decoder returns frame 1, tag 0, corner 0. The index also wraps modulo \<open>2 ^ 32\<close>:
  frame \<open>2 ^ 30\<close> produces the keys of frame 0.
\<close>

theorem sym_X_w_i_tag_255_collides:
  "sym_X_w_i 255 0 0 = Inr (Symbol (of_char (CHR ''w'')) 1020)
   \<and> sym_X_w_i 0 0 1 = Inr (Symbol (of_char (CHR ''w'')) 1020)
   \<and> X_w_i_sym_to_index (Symbol (of_char (CHR ''w'')) 1020) = (1, 0, 0)
   \<and> sym_X_w_i 7 2 (2 ^ 30) = sym_X_w_i 7 2 0"
  by (simp add: sym_X_w_i_def X_w_i_sym_to_index_def MAX_TAG_ID_def)

text \<open>
  Claim C2, as stated: every encoder fails outside its bounds, the tag-to-body encoder
  for tag id \<open>\<ge> 256\<close>. The tag-to-body encoder has no guard: at tag id 256 it returns
  the key \<open>('t', 256)\<close>.
\<close>

theorem sym_T_b_o_256_succeeds:
  "sym_T_b_o 256 = Inr (Symbol (of_char (CHR ''t'')) 256)"
  by (simp add: sym_T_b_o_def)

text \<open>
  Claim C2, amended: the camera-pose encoder fails exactly when the camera index, read
  as unsigned, is \<open>\<ge> 8\<close>; the body-pose encoder exactly when the body index is
  \<open>\<ge> 24\<close>; the world-corner encoder exactly when the tag id is \<open>> 255\<close>; each fails with
  its own configuration error and succeeds otherwise. The tag-to-body encoder never
  fails, whatever the tag id.
\<close>

theorem encoders_fail_exactly_out_of_bounds:
  "isl (sym_T_c_t camId frame) = (8 \<le> camId)
   \<and> isl (sym_T_w_b bodyIdx frame) = (24 \<le> bodyIdx)
   \<and> isl (sym_X_w_i tagId corner frame) = (256 \<le> tagId)
   \<and> \<not> isl (sym_T_b_o tagId)"
proof -
  have tag: "(255 < tagId) = (256 \<le> tagId)"
    by (simp add: word_less_nat_alt word_le_nat_alt) arith
  show ?thesis
    by (simp add: sym_T_c_t_def sym_T_w_b_def sym_X_w_i_def sym_T_b_o_def
        MAX_CAM_ID_def MAX_BODY_ID_def MAX_TAG_ID_def tag)
qed

section \<open>Facts about keys\<close>

text \<open>Sign extension from 32 to 64 bits loses nothing, and is the zero extension for
  a value below \<open>2 ^ 31\<close>.\<close>

lemma ucast_scast_32_64: "(ucast (scast x :: 64 word) :: 32 word) = x" for x :: "32 word"
  by (rule bit_word_eqI) (auto simp add: bit_simps)

lemma scast_32_64_inj: "(scast (x::32 word) :: 64 word) = scast y \<Longrightarrow> x = y"
  by (metis ucast_scast_32_64)

lemma word_less_2p_iff_take_bit:
  "n < LENGTH('a) \<Longrightarrow> (w < 2 ^ n) = (take_bit n w = w)" for w :: "'a::len word"
  by (simp add: take_bit_eq_mask mask_eq_iff word_2p_lem word_size)

lemma not_bit_31: "x < 2 ^ 31 \<Longrightarrow> \<not> bit x 31" for x :: "32 word"
proof
  assume "x < 2 ^ 31" and b: "bit x 31"
  then have "take_bit 31 x = x" using word_less_2p_iff_take_bit [of 31 x] by simp
  then have "bit (take_bit 31 x) 31" using b by simp
  then show False by (simp add: bit_simps)
qed

lemma bit_31: "2 ^ 31 \<le> x \<Longrightarrow> bit x 31" for x :: "32 word"
proof (rule ccontr)
  assume le: "2 ^ 31 \<le> x" and nb: "\<not> bit x 31"
  have "take_bit 31 x = x"
  proof (rule bit_word_eqI)
    fix n assume "n < LENGTH(32)"
    then show "bit (take_bit 31 x) n = bit x n"
      using nb by (cases "n = 31") (auto simp add: bit_simps)
  qed
  then have "x < 2 ^ 31" using word_less_2p_iff_take_bit [of 31 x] by simp
  then show False using le by simp
qed

lemma scast_nonneg: "x < 2 ^ 31 \<Longrightarrow> (scast x :: 64 word) = ucast x" for x :: "32 word"
proof -
  assume "x < 2 ^ 31"
  then have nb: "\<not> bit x 31" by (rule not_bit_31)
  show ?thesis
    by (rule bit_word_eqI)
      (auto simp add: bit_word_scast_iff bit_word_ucast_iff nb dest: bit_imp_le_length)
qed

text \<open>An index fits the key exactly when its upper 8 bits are clear; the packing can
  then be undone, so it is one-to-one on the symbols that convert.\<close>

lemma le_indexMask_iff: "(i \<le> indexMask) = (take_bit 56 i = i)"
proof -
  have "(i \<le> indexMask) = (i < 2 ^ 56)"
    by (simp add: indexMask_def mask_eq_exp_minus_1 word_le_nat_alt word_less_nat_alt) arith
  then show ?thesis using word_less_2p_iff_take_bit [of 56 i] by simp
qed

lemma index_Symbol_pack:
  "index symb \<le> indexMask \<Longrightarrow> take_bit 56 (Symbol_pack symb) = index symb"
proof -
  assume "index symb \<le> indexMask"
  then have t: "take_bit 56 (index symb) = index symb" by (simp add: le_indexMask_iff)
  have "take_bit 56 (Symbol_pack symb) = take_bit 56 (index symb)"
    unfolding Symbol_pack_def by (rule bit_word_eqI) (auto simp add: bit_simps)
  then show ?thesis using t by simp
qed

lemma chr_Symbol_pack:
  "index symb \<le> indexMask \<Longrightarrow> ucast (drop_bit 56 (Symbol_pack symb)) = chr symb"
proof -
  assume "index symb \<le> indexMask"
  then have t: "take_bit 56 (index symb) = index symb" by (simp add: le_indexMask_iff)
  have hi: "\<not> bit (index symb) (56 + n)" for n
  proof
    assume "bit (index symb) (56 + n)"
    then have "bit (take_bit 56 (index symb)) (56 + n)" using t by simp
    then show False by (simp add: bit_simps)
  qed
  show ?thesis
    unfolding Symbol_pack_def by (rule bit_word_eqI) (auto simp add: bit_simps hi)
qed

lemma Symbol_pack_inj:
  assumes "index a \<le> indexMask" and "index b \<le> indexMask"
    and "Symbol_pack a = Symbol_pack b"
  shows "a = b"
proof -
  have "index a = index b"
    using index_Symbol_pack [OF assms(1)] index_Symbol_pack [OF assms(2)] assms(3) by simp
  moreover have "chr a = chr b"
    using chr_Symbol_pack [OF assms(1)] chr_Symbol_pack [OF assms(2)] assms(3) by simp
  ultimately show ?thesis by (simp add: Symbol.expand)
qed

lemma ucast_le_indexMask: "(ucast x :: 64 word) \<le> indexMask" for x :: "32 word"
  unfolding le_indexMask_iff
  by (rule bit_word_eqI) (auto simp add: bit_simps dest: bit_imp_le_length)

lemma scast_le_indexMask: "x < 2 ^ 31 \<Longrightarrow> (scast x :: 64 word) \<le> indexMask"
  for x :: "32 word"
  by (simp add: scast_nonneg ucast_le_indexMask)

lemma scast_gt_indexMask: "2 ^ 31 \<le> x \<Longrightarrow> indexMask < (scast x :: 64 word)"
  for x :: "32 word"
proof (rule ccontr)
  assume le: "2 ^ 31 \<le> x" and "\<not> indexMask < (scast x :: 64 word)"
  then have "(scast x :: 64 word) \<le> indexMask" by simp
  then have t: "take_bit 56 (scast x :: 64 word) = scast x" by (simp add: le_indexMask_iff)
  have "bit (scast x :: 64 word) 63" using bit_31 [OF le] by (simp add: bit_word_scast_iff)
  then have "bit (take_bit 56 (scast x :: 64 word)) 63" using t by simp
  then show False by (simp add: bit_simps)
qed

text \<open>The tag-to-body symbol converts exactly when the tag id, read as unsigned, is
  below \<open>2 ^ 31\<close>, that is when the \<^verbatim>\<open>int\<close> is not negative.\<close>

lemma sym_T_b_o_tagSym: "sym_T_b_o tagId = Inr (tagSym tagId)"
  by (simp add: tagSym_def sym_T_b_o_def)

lemma index_tagSym: "index (tagSym tagId) = scast tagId"
  by (simp add: tagSym_def sym_T_b_o_def)

lemma Symbol_key_tagSym:
  "tagId < 2 ^ 31 \<Longrightarrow> Symbol_key (tagSym tagId) = Inr (Symbol_pack (tagSym tagId))"
  using scast_le_indexMask [of tagId]
  by (simp add: Symbol_key_def index_tagSym not_less [symmetric])

lemma Symbol_key_tag: "tag_id t < 2 ^ 31 \<Longrightarrow> Symbol_key (tagSym (tag_id t)) = Inr (tagKey t)"
  using Symbol_key_tagSym [of "tag_id t"] by (simp add: tagKey_def)

lemma Symbol_key_tagSym_throws:
  "2 ^ 31 \<le> tagId \<Longrightarrow> Symbol_key (tagSym tagId) = Inl (SymbolIndexTooLarge (tagSym tagId))"
  using scast_gt_indexMask [of tagId] by (simp add: Symbol_key_def index_tagSym)

lemma tagKey_eq_iff:
  assumes "tag_id a < 2 ^ 31" and "tag_id b < 2 ^ 31"
  shows "(tagKey a = tagKey b) = (tag_id a = tag_id b)"
proof
  assume "tagKey a = tagKey b"
  then have "Symbol_pack (tagSym (tag_id a)) = Symbol_pack (tagSym (tag_id b))"
    by (simp add: tagKey_def)
  moreover have "index (tagSym (tag_id a)) \<le> indexMask" "index (tagSym (tag_id b)) \<le> indexMask"
    using assms by (simp_all add: index_tagSym scast_le_indexMask)
  ultimately have "tagSym (tag_id a) = tagSym (tag_id b)" by (metis Symbol_pack_inj)
  then have "index (tagSym (tag_id a)) = index (tagSym (tag_id b))" by simp
  then show "tag_id a = tag_id b" by (simp add: index_tagSym scast_32_64_inj)
next
  assume "tag_id a = tag_id b"
  then show "tagKey a = tagKey b" by (simp add: tagKey_def)
qed

text \<open>Body and camera symbols carry a zero-extended 32-bit index and always convert;
  a camera key and a body key never coincide.\<close>

lemma sym_T_w_b_bodySym: "i < 24 \<Longrightarrow> sym_T_w_b i f = Inr (bodySym i f)"
  by (simp add: bodySym_def sym_T_w_b_def MAX_BODY_ID_def)

lemma sym_T_w_b_out_of_bounds: "24 \<le> i \<Longrightarrow> sym_T_w_b i f = Inl (BodyIdxExceedsMax i)"
  by (simp add: sym_T_w_b_def MAX_BODY_ID_def)

lemma sym_T_c_t_camSym: "i < 8 \<Longrightarrow> sym_T_c_t i f = Inr (camSym i f)"
  by (simp add: camSym_def sym_T_c_t_def MAX_CAM_ID_def)

lemma index_bodySym: "i < 24 \<Longrightarrow> index (bodySym i f) = ucast f"
  by (simp add: bodySym_def sym_T_w_b_def MAX_BODY_ID_def not_le [symmetric])

lemma index_camSym: "i < 8 \<Longrightarrow> index (camSym i f) = ucast f"
  by (simp add: camSym_def sym_T_c_t_def MAX_CAM_ID_def not_le [symmetric])

lemma Symbol_key_bodySym: "i < 24 \<Longrightarrow> Symbol_key (bodySym i f) = Inr (bodyKey i f)"
  using ucast_le_indexMask [of f]
  by (simp add: Symbol_key_def index_bodySym bodyKey_def not_less [symmetric])

lemma Symbol_key_camSym: "i < 8 \<Longrightarrow> Symbol_key (camSym i f) = Inr (camKey i f)"
  using ucast_le_indexMask [of f]
  by (simp add: Symbol_key_def index_camSym camKey_def not_less [symmetric])

lemma chr_camSym: "i < 8 \<Longrightarrow> unat (chr (camSym i f)) = 97 + unat i"
  apply (simp add: camSym_def sym_T_c_t_def MAX_CAM_ID_def)
  apply (simp add: unsigned_ucast_eq take_bit_eq_mod unat_word_ariths
      word_less_nat_alt word_le_nat_alt)
  done

lemma chr_bodySym: "i < 24 \<Longrightarrow> unat (chr (bodySym i f)) = 65 + unat i"
  apply (simp add: bodySym_def sym_T_w_b_def MAX_BODY_ID_def)
  apply (simp add: unsigned_ucast_eq take_bit_eq_mod unat_word_ariths
      word_less_nat_alt word_le_nat_alt)
  done

lemma camSym_neq_bodySym: "c < 8 \<Longrightarrow> b < 24 \<Longrightarrow> camSym c f \<noteq> bodySym b g"
proof
  assume c: "c < 8" and b: "b < 24" and eq: "camSym c f = bodySym b g"
  have "unat (chr (camSym c f)) = unat (chr (bodySym b g))" using eq by simp
  then have "97 + unat c = 65 + unat b"
    using chr_camSym [OF c] chr_bodySym [OF b] by simp
  moreover have "unat b < 24" using b by (simp add: word_less_nat_alt)
  ultimately show False by arith
qed

lemma camKey_neq_bodyKey: "c < 8 \<Longrightarrow> b < 24 \<Longrightarrow> camKey c f \<noteq> bodyKey b g"
proof
  assume c: "c < 8" and b: "b < 24" and eq: "camKey c f = bodyKey b g"
  have "index (camSym c f) \<le> indexMask" "index (bodySym b g) \<le> indexMask"
    using c b by (simp_all add: index_camSym index_bodySym ucast_le_indexMask)
  then have "camSym c f = bodySym b g"
    using eq unfolding camKey_def bodyKey_def by (rule Symbol_pack_inj)
  then show False using camSym_neq_bodySym [OF c b] by simp
qed

section \<open>addTags\<close>

text \<open>One step of the loop, and the loop over tags that are new, pairwise distinct
  and have an id that converts.\<close>

lemma addTags_existing:
  "tag_id d < 2 ^ 31 \<Longrightarrow> tg_values s (tagKey d) \<noteq> None \<Longrightarrow>
   addTags rb (d # rest) s = (Inr (), s\<lparr>tg_cout := tg_cout s @ [DuplicateTagId (tag_id d)]\<rparr>)"
  by (simp add: sym_T_b_o_tagSym Symbol_key_tag)

lemma addTags_throws:
  "2 ^ 31 \<le> tag_id d \<Longrightarrow>
   addTags rb (d # rest) s = (Inl (SymbolIndexTooLarge (tagSym (tag_id d))), s)"
  by (simp add: sym_T_b_o_tagSym Symbol_key_tagSym_throws)

lemma addTags_new:
  "tag_id t < 2 ^ 31 \<Longrightarrow> tg_values s (tagKey t) = None \<Longrightarrow>
   addTags rb (t # ts) s =
     addTags rb ts
       (s\<lparr>tg_values := (tg_values s)(tagKey t \<mapsto> PoseValue (pe_pose (tag_poseEstimate t))),
          tg_graph := tg_graph s @ (if tag_hasKnownPose t then [tagPrior t] else [])\<rparr>)"
  by (simp add: sym_T_b_o_tagSym Symbol_key_tag tagPrior_def Let_def)

lemma distinct_tagKey_neq:
  assumes "distinct (map tag_id (t # ts))" and "\<forall>u\<in>set (t # ts). tag_id u < 2 ^ 31"
  shows "\<forall>u\<in>set ts. tagKey u \<noteq> tagKey t"
proof
  fix u assume u: "u \<in> set ts"
  then have "tag_id u \<in> tag_id ` set ts" by (rule imageI)
  moreover have "tag_id t \<notin> tag_id ` set ts" using assms(1) by simp
  ultimately have "tag_id u \<noteq> tag_id t" by metis
  moreover have "tag_id u < 2 ^ 31" "tag_id t < 2 ^ 31" using assms(2) u by simp_all
  ultimately show "tagKey u \<noteq> tagKey t" by (simp add: tagKey_eq_iff)
qed

lemma addTags_fresh:
  "distinct (map tag_id pre) \<Longrightarrow> \<forall>t\<in>set pre. tag_id t < 2 ^ 31 \<Longrightarrow>
   \<forall>t\<in>set pre. tg_values s (tagKey t) = None \<Longrightarrow>
   fst (addTags rb pre s) = Inr ()
   \<and> (\<forall>t\<in>set pre. tg_values (snd (addTags rb pre s)) (tagKey t)
          = Some (PoseValue (pe_pose (tag_poseEstimate t))))
   \<and> (\<forall>k. k \<notin> tagKey ` set pre \<longrightarrow> tg_values (snd (addTags rb pre s)) k = tg_values s k)
   \<and> tg_graph (snd (addTags rb pre s)) = tg_graph s @ map tagPrior (filter tag_hasKnownPose pre)
   \<and> tg_cout (snd (addTags rb pre s)) = tg_cout s"
proof (induction pre arbitrary: s)
  case Nil
  then show ?case by simp
next
  case (Cons t ts)
  let ?s' = "s\<lparr>tg_values := (tg_values s)(tagKey t \<mapsto> PoseValue (pe_pose (tag_poseEstimate t))),
               tg_graph := tg_graph s @ (if tag_hasKnownPose t then [tagPrior t] else [])\<rparr>"
  have ok: "tag_id t < 2 ^ 31" using Cons.prems(2) by simp
  have new: "tg_values s (tagKey t) = None" using Cons.prems(3) by simp
  have step: "addTags rb (t # ts) s = addTags rb ts ?s'"
    using ok new by (rule addTags_new)
  have d: "distinct (map tag_id ts)" using Cons.prems(1) by simp
  have oks: "\<forall>u\<in>set ts. tag_id u < 2 ^ 31" using Cons.prems(2) by simp
  have neq: "\<forall>u\<in>set ts. tagKey u \<noteq> tagKey t"
    using Cons.prems(1,2) by (rule distinct_tagKey_neq)
  then have notin: "tagKey t \<notin> tagKey ` set ts" by force
  have fresh: "\<forall>u\<in>set ts. tg_values ?s' (tagKey u) = None"
    using Cons.prems(3) neq by simp
  note IH = Cons.IH [OF d oks fresh]
  show ?case
    unfolding step using IH notin neq by auto
qed

lemma addTags_append:
  "distinct (map tag_id pre) \<Longrightarrow> \<forall>t\<in>set pre. tag_id t < 2 ^ 31 \<Longrightarrow>
   \<forall>t\<in>set pre. tg_values s (tagKey t) = None \<Longrightarrow>
   addTags rb (pre @ xs) s = addTags rb xs (snd (addTags rb pre s))"
proof (induction pre arbitrary: s)
  case Nil
  then show ?case by simp
next
  case (Cons t ts)
  let ?s' = "s\<lparr>tg_values := (tg_values s)(tagKey t \<mapsto> PoseValue (pe_pose (tag_poseEstimate t))),
               tg_graph := tg_graph s @ (if tag_hasKnownPose t then [tagPrior t] else [])\<rparr>"
  have ok: "tag_id t < 2 ^ 31" using Cons.prems(2) by simp
  have new: "tg_values s (tagKey t) = None" using Cons.prems(3) by simp
  have step: "addTags rb (t # zs) s = addTags rb zs ?s'" for zs
    using ok new by (rule addTags_new)
  have d: "distinct (map tag_id ts)" using Cons.prems(1) by simp
  have oks: "\<forall>u\<in>set ts. tag_id u < 2 ^ 31" using Cons.prems(2) by simp
  have neq: "\<forall>u\<in>set ts. tagKey u \<noteq> tagKey t"
    using Cons.prems(1,2) by (rule distinct_tagKey_neq)
  have fresh: "\<forall>u\<in>set ts. tg_values ?s' (tagKey u) = None"
    using Cons.prems(3) neq by simp
  show ?case
    using Cons.IH [OF d oks fresh] step [of "ts @ xs"] step [of ts] by simp
qed

lemma addTags_key_exists_after:
  assumes "distinct (map tag_id pre)" and "\<forall>t\<in>set pre. tag_id t < 2 ^ 31"
    and "\<forall>t\<in>set pre. tg_values s (tagKey t) = None"
    and "tg_values s (tagKey d) \<noteq> None \<or> tag_id d \<in> tag_id ` set pre"
  shows "tg_values (snd (addTags rb pre s)) (tagKey d) \<noteq> None"
proof (cases "tagKey d \<in> tagKey ` set pre")
  case True
  then obtain t where t: "t \<in> set pre" and "tagKey d = tagKey t" by auto
  then show ?thesis using addTags_fresh [OF assms(1,2,3), of rb] by auto
next
  case False
  have "tag_id d \<notin> tag_id ` set pre"
  proof
    assume "tag_id d \<in> tag_id ` set pre"
    then obtain t where "t \<in> set pre" and "tag_id d = tag_id t" by auto
    then have "tagKey d = tagKey t" "t \<in> set pre" by (simp_all add: tagKey_def)
    then show False using False by blast
  qed
  then have "tg_values s (tagKey d) \<noteq> None" using assms(4) by simp
  then show ?thesis using addTags_fresh [OF assms(1,2,3), of rb] False by auto
qed

text \<open>
  Claim C3, as stated: for each tag of the list, a tag whose key exists is rejected and
  a tag whose key does not exist gets its pose inserted. The loop leaves the function at
  the first key that exists. With tag 1 in the store, \<^verbatim>\<open>addTags\<close> of the tags 1 and
  2: the key of tag 2 does not exist before the call and is not inserted by it.
\<close>

theorem addTags_skips_tags_after_existing_key:
  "tg_values (snd (addTags (rb_ex 0) [tag_ex 1] (TagGraph_new 0 0 0))) (tagKey (tag_ex 2)) = None
   \<and> tg_values
        (snd (addTags (rb_ex 0) [tag_ex 1, tag_ex 2]
                (snd (addTags (rb_ex 0) [tag_ex 1] (TagGraph_new 0 0 0)))))
        (tagKey (tag_ex 2)) = None"
  by (simp add: tag_ex_def TagGraph_new_def tagKey_def tagSym_def sym_T_b_o_def
      Symbol_key_def Symbol_pack_def indexMask_def mask_eq_exp_minus_1 Let_def)

text \<open>
  Claim C3, amended: \<^verbatim>\<open>addTags\<close> visits the tags in list order up to the first tag
  whose tag-to-body key already exists in the value store as the earlier tags of the
  call have left it, or whose id is negative. Each tag before that one (tags with new,
  pairwise distinct, non-negative ids, that is ids below \<open>2 ^ 31\<close> read as unsigned)
  has its current pose inserted under its key, and exactly the tags whose pose is
  externally known get one Prior factor each, with the tag's pose and noise, in list
  order; no other key changes and nothing is printed. At the first tag with a
  non-negative id whose key exists, in the store before the call or through an equal id
  earlier in the list, the call prints the duplicate diagnostic and returns: that tag
  and every later one change neither values nor factors, and what the earlier tags
  inserted stays. At a tag with a negative id the conversion of its symbol into a key
  throws, and the exception leaves the call with what the earlier tags inserted.
\<close>

theorem addTags_stops_at_first_existing_key:
  assumes "distinct (map tag_id pre)"
    and "\<forall>t\<in>set pre. tag_id t < 2 ^ 31"
    and "\<forall>t\<in>set pre. tg_values s (tagKey t) = None"
  shows "fst (addTags rb pre s) = Inr ()
   \<and> (\<forall>t\<in>set pre. tg_values (snd (addTags rb pre s)) (tagKey t)
          = Some (PoseValue (pe_pose (tag_poseEstimate t))))
   \<and> (\<forall>k. k \<notin> tagKey ` set pre \<longrightarrow> tg_values (snd (addTags rb pre s)) k = tg_values s k)
   \<and> tg_graph (snd (addTags rb pre s))
       = tg_graph s @ map tagPrior (filter tag_hasKnownPose pre)
   \<and> tg_cout (snd (addTags rb pre s)) = tg_cout s
   \<and> (tag_id d < 2 ^ 31
        \<and> (tg_values s (tagKey d) \<noteq> None \<or> tag_id d \<in> tag_id ` set pre) \<longrightarrow>
        addTags rb (pre @ d # rest) s
          = (Inr (), (snd (addTags rb pre s))
                       \<lparr>tg_cout := tg_cout s @ [DuplicateTagId (tag_id d)]\<rparr>))
   \<and> (2 ^ 31 \<le> tag_id d \<longrightarrow>
        addTags rb (pre @ d # rest) s
          = (Inl (SymbolIndexTooLarge (tagSym (tag_id d))), snd (addTags rb pre s)))"
proof -
  note fresh = addTags_fresh [OF assms, of rb]
  have app: "addTags rb (pre @ d # rest) s = addTags rb (d # rest) (snd (addTags rb pre s))"
    using assms by (rule addTags_append)
  have stop: "addTags rb (pre @ d # rest) s
          = (Inr (), (snd (addTags rb pre s))
                       \<lparr>tg_cout := tg_cout s @ [DuplicateTagId (tag_id d)]\<rparr>)"
    if ok: "tag_id d < 2 ^ 31"
      and dup: "tg_values s (tagKey d) \<noteq> None \<or> tag_id d \<in> tag_id ` set pre"
  proof -
    have ex: "tg_values (snd (addTags rb pre s)) (tagKey d) \<noteq> None"
      using assms dup by (rule addTags_key_exists_after)
    have "addTags rb (d # rest) (snd (addTags rb pre s))
       = (Inr (), (snd (addTags rb pre s))
                     \<lparr>tg_cout := tg_cout (snd (addTags rb pre s)) @ [DuplicateTagId (tag_id d)]\<rparr>)"
      using ok ex by (rule addTags_existing)
    then show ?thesis using app fresh by simp
  qed
  have throw: "addTags rb (pre @ d # rest) s
          = (Inl (SymbolIndexTooLarge (tagSym (tag_id d))), snd (addTags rb pre s))"
    if "2 ^ 31 \<le> tag_id d"
    using app addTags_throws [OF that] by simp
  show ?thesis using fresh stop throw by blast
qed

text \<open>The theorem of C3 at the tags 1, 2, then 1 again and 3, and at the tags 1, 2,
  then -1 and 3, on the empty graph.\<close>

theorem addTags_stops_at_first_existing_key_witness:
  "distinct (map tag_id [tag_ex 1, tag_ex 2])
   \<and> tg_graph (snd (addTags (rb_ex 0) [tag_ex 1, tag_ex 2] (TagGraph_new 0 0 0)))
       = [tagPrior (tag_ex 1), tagPrior (tag_ex 2)]
   \<and> addTags (rb_ex 0) ([tag_ex 1, tag_ex 2] @ tag_ex 1 # [tag_ex 3]) (TagGraph_new 0 0 0)
       = (Inr (), (snd (addTags (rb_ex 0) [tag_ex 1, tag_ex 2] (TagGraph_new 0 0 0)))
                    \<lparr>tg_cout := [DuplicateTagId 1]\<rparr>)
   \<and> addTags (rb_ex 0) ([tag_ex 1, tag_ex 2] @ tag_ex (- 1) # [tag_ex 3]) (TagGraph_new 0 0 0)
       = (Inl (SymbolIndexTooLarge (tagSym (- 1))),
          snd (addTags (rb_ex 0) [tag_ex 1, tag_ex 2] (TagGraph_new 0 0 0)))"
proof -
  have d: "distinct (map tag_id [tag_ex 1, tag_ex 2])"
    by (simp add: tag_ex_def)
  have v: "\<forall>t\<in>set [tag_ex 1, tag_ex 2]. tag_id t < 2 ^ 31"
    by (simp add: tag_ex_def)
  have f: "\<forall>t\<in>set [tag_ex 1, tag_ex 2]. tg_values (TagGraph_new 0 0 0) (tagKey t) = None"
    by (simp add: TagGraph_new_def)
  show ?thesis
    using d addTags_stops_at_first_existing_key [OF d v f, of "rb_ex 0" "tag_ex 1" "[tag_ex 3]"]
      addTags_stops_at_first_existing_key [OF d v f, of "rb_ex 0" "tag_ex (- 1)" "[tag_ex 3]"]
    by (simp add: tag_ex_def TagGraph_new_def)
qed

section \<open>observedTags: the no-op cases\<close>

text \<open>
  Claim C4, as stated: in each of the three cases a diagnostic is emitted. With a
  non-empty tag list, a valid camera pose and an invalid body pose the function
  returns without printing: the state after the call is the state before it, output
  included.
\<close>

theorem observedTags_body_invalid_is_silent:
  "observedTags (cam_ex None) ((rb_ex 0)\<lparr>rb_poseEstimate := PoseEstimate_default\<rparr>)
     [tag_ex 1] 0 (TagGraph_new 0 0 0) = (Inr (), TagGraph_new 0 0 0)
   \<and> tg_cout (TagGraph_new 0 0 0) = []"
  by (simp add: observedTags_def cam_ex_def rb_ex_def PoseEstimate_default_def
      PoseEstimate_of_def TagGraph_new_def)

text \<open>
  Claim C4, amended: when the tag list is empty, or the camera pose estimate is
  invalid, or the body pose estimate is invalid, \<^verbatim>\<open>observedTags\<close> returns normally
  and leaves the value store, the factor collection and every other member unchanged.
  It prints one diagnostic when the tag list is empty, and one when the list is not
  empty and the camera pose is invalid; when only the body pose is invalid it prints
  nothing.
\<close>

theorem observedTags_noop:
  assumes "tags = [] \<or> \<not> pe_valid (cam_poseEstimate cam) \<or> \<not> pe_valid (rb_poseEstimate rb)"
  shows "observedTags cam rb tags frame_num s =
     (Inr (),
      s\<lparr>tg_cout := tg_cout s @
           (if tags = [] then [NoTagsFor (cam_name cam) frame_num]
            else if \<not> pe_valid (cam_poseEstimate cam)
            then [NoPoseEstimateForCam (cam_name cam) frame_num]
            else [])\<rparr>)"
  using assms by (auto simp add: observedTags_def)

text \<open>The theorem of C4 at an empty tag list in frame 7.\<close>

theorem observedTags_noop_witness:
  "observedTags (cam_ex None) (rb_ex 0) [] 7 (TagGraph_new 0 0 0)
     = (Inr (), (TagGraph_new 0 0 0)\<lparr>tg_cout := [NoTagsFor ''cam0'' 7]\<rparr>)"
  using observedTags_noop [of "[]" "cam_ex None" "rb_ex 0" 7 "TagGraph_new 0 0 0"]
  by (simp add: cam_ex_def TagGraph_new_def)

section \<open>Evaluating the concrete inputs\<close>

text \<open>The definitions a concrete evaluation unfolds, and the keys that exist in
  \<open>graph_ex\<close>.\<close>

lemmas ex_defs = graph_ex_def observedTags_def
  cam_ex_def rb_ex_def tag_ex_def TagGraph_new_def
  PoseEstimate_of_def PoseEstimate_default_def cornerFactor_def
  sym_T_b_o_def sym_T_c_t_def sym_T_w_b_def MAX_CAM_ID_def MAX_BODY_ID_def
  Symbol_key_def Symbol_pack_def indexMask_def mask_eq_exp_minus_1
  tagSym_def bodySym_def camSym_def tagKey_def bodyKey_def camKey_def Let_def


section \<open>addDistanceMeasurement\<close>





section \<open>getCameraPose\<close>

text \<open>
  Claim C8: for a camera whose index is in bounds and whose pose key at the queried
  time bucket (bucket 0 for a static camera) is not in the value store,
  \<^verbatim>\<open>getCameraPose\<close> returns normally, and what it returns is the default-constructed
  estimate, which is marked invalid: no exception, and no pose marked valid.
\<close>

theorem getCameraPose_not_found:
  assumes "cam_index cam < 8"
    and "tg_values s (camKey (cam_index cam) (if cam_isStatic cam then 0 else frame_num)) = None"
  shows "getCameraPose cam frame_num s = Inr PoseEstimate_default
    \<and> \<not> pe_valid PoseEstimate_default"
  using assms
  by (simp add: getCameraPose_def sym_T_c_t_camSym Symbol_key_camSym PoseEstimate_default_def)

text \<open>The theorem of C8 for the static camera 0 on the empty graph, and for a moving
  camera 7 in frame 5 on \<open>graph_ex\<close>.\<close>

theorem getCameraPose_not_found_witness:
  "getCameraPose (cam_ex None) 5 (TagGraph_new 0 0 0) = Inr PoseEstimate_default
   \<and> getCameraPose ((cam_ex None)\<lparr>cam_index := 7, cam_isStatic := False\<rparr>) 5 graph_ex
       = Inr PoseEstimate_default
   \<and> \<not> pe_valid PoseEstimate_default"
proof -
  have a: "cam_index (cam_ex None) < 8" by (simp add: cam_ex_def)
  have b: "tg_values (TagGraph_new 0 0 0)
             (camKey (cam_index (cam_ex None)) (if cam_isStatic (cam_ex None) then 0 else 5)) = None"
    by (simp add: TagGraph_new_def)
  have c: "cam_index ((cam_ex None)\<lparr>cam_index := 7, cam_isStatic := False\<rparr>) < 8" by simp
  have d: "tg_values graph_ex
             (camKey (cam_index ((cam_ex None)\<lparr>cam_index := 7, cam_isStatic := False\<rparr>))
                (if cam_isStatic ((cam_ex None)\<lparr>cam_index := 7, cam_isStatic := False\<rparr>)
                 then 0 else 5)) = None"
    by (simp add: ex_defs)
  show ?thesis
    using getCameraPose_not_found [OF a b] getCameraPose_not_found [OF c d] by simp
qed

section \<open>observedTags with neither distortion model\<close>

text \<open>
  Claim C9, as stated: with the preconditions met and neither distortion model, no
  error or diagnostic is produced. On the empty graph, with a static body that has a
  prior and one tag whose pose is invalid, the call prints two lines: the notice of the
  prior it adds and the warning about the tag.
\<close>

theorem observedTags_no_model_prints:
  "tg_cout (snd (observedTags (cam_ex None) (rb_ex 0)
                   [(tag_ex 5)\<lparr>tag_poseEstimate := PoseEstimate_default\<rparr>] 0
                   (TagGraph_new 0 0 0)))
     = [AddingPriorForBody ''board'', TagHasInvalidPose 5]"
  by (simp add: ex_defs)

text \<open>Without a model no corner adds a factor, so the loop over the tags only prints
  the warnings for the tags whose pose is invalid, provided the tags with a valid pose
  have ids that convert.\<close>

lemma cornerFactor_no_model:
  "cam_radtanModel cam = None \<Longrightarrow> cam_equidistantModel cam = None \<Longrightarrow>
   cornerFactor cam tag T_b_o T_w_b T_w_c pixelNoise i = []"
  by (simp add: cornerFactor_def)

lemma observedTags_loop_no_model:
  "cam_radtanModel cam = None \<Longrightarrow> cam_equidistantModel cam = None \<Longrightarrow>
   \<forall>t\<in>set tags. pe_valid (tag_poseEstimate t) \<longrightarrow> tag_id t < 2 ^ 31 \<Longrightarrow>
   observedTags_loop cam T_w_b T_w_c tags s =
     (Inr (),
      s\<lparr>tg_cout := tg_cout s @
           map (\<lambda>t. TagHasInvalidPose (tag_id t))
             (filter (\<lambda>t. \<not> pe_valid (tag_poseEstimate t)) tags)\<rparr>)"
proof (induction tags arbitrary: s)
  case Nil
  then show ?case by simp
next
  case (Cons t ts)
  then show ?case
    by (simp add: cornerFactor_no_model sym_T_b_o_tagSym Symbol_key_tag)
qed

text \<open>
  Claim C9, amended: for a call of \<^verbatim>\<open>observedTags\<close> with a non-empty tag list, valid
  camera and body pose estimates, a camera index below 8, a body index below 24 and
  non-negative ids (below \<open>2 ^ 31\<close> read as unsigned) for the tags whose pose is valid,
  whose camera has neither a radial-tangential nor an equidistant model: the call
  returns normally; afterwards the camera-pose key and the body-pose key hold a value
  (the estimate's pose where the key was absent, the old value where it was present)
  and no other key has changed; the factor collection has gained the Prior factor of a
  static body with a prior whose key was absent, and nothing else, so no Reprojection
  factor; and the output has gained only the notice of that prior and one warning for
  each tag whose pose is invalid: nothing reports the missing model.
\<close>

theorem observedTags_without_distortion_model:
  fixes cam :: Camera and rb :: RigidBody and tags :: "Tag list" and frame_num :: cuint
    and s :: TagGraph
  assumes "tags \<noteq> []" and "pe_valid (cam_poseEstimate cam)"
    and "pe_valid (rb_poseEstimate rb)"
    and "cam_radtanModel cam = None" and "cam_equidistantModel cam = None"
    and "cam_index cam < 8" and "rb_index rb < 24"
    and "\<forall>t\<in>set tags. pe_valid (tag_poseEstimate t) \<longrightarrow> tag_id t < 2 ^ 31"
  defines "kc \<equiv> camKey (cam_index cam) (if cam_isStatic cam then 0 else frame_num)"
    and "kb \<equiv> bodyKey (rb_index rb) (if rb_isStatic rb then 0 else frame_num)"
    and "r \<equiv> observedTags cam rb tags frame_num s"
    and "newPrior \<equiv> tg_values s
                       (bodyKey (rb_index rb) (if rb_isStatic rb then 0 else frame_num)) = None
                     \<and> rb_isStatic rb \<and> rb_hasPosePrior rb"
  shows "fst r = Inr ()
    \<and> tg_values (snd r) kc =
        (if tg_values s kc = None then Some (PoseValue (pe_pose (cam_poseEstimate cam)))
         else tg_values s kc)
    \<and> tg_values (snd r) kb =
        (if tg_values s kb = None then Some (PoseValue (pe_pose (rb_poseEstimate rb)))
         else tg_values s kb)
    \<and> (\<forall>k. k \<noteq> kc \<and> k \<noteq> kb \<longrightarrow> tg_values (snd r) k = tg_values s k)
    \<and> tg_graph (snd r) = tg_graph s @
        (if newPrior
         then [PriorFactor kb (pe_pose (rb_poseEstimate rb)) (pe_noise (rb_poseEstimate rb))]
         else [])
    \<and> numReprojection (tg_graph (snd r)) = numReprojection (tg_graph s)
    \<and> tg_cout (snd r) = tg_cout s @
        (if newPrior then [AddingPriorForBody (rb_name rb)] else []) @
        map (\<lambda>t. TagHasInvalidPose (tag_id t))
          (filter (\<lambda>t. \<not> pe_valid (tag_poseEstimate t)) tags)"
proof -
  have neq: "kc \<noteq> kb" unfolding kc_def kb_def
    using assms(6,7) by (rule camKey_neq_bodyKey)
  have unfold: "r = (let s1 = (if tg_values s kc = None
                      then s\<lparr>tg_values := (tg_values s)
                              (kc \<mapsto> PoseValue (pe_pose (cam_poseEstimate cam)))\<rparr>
                      else s);
                    pe = rb_poseEstimate rb;
                       s2 = (if tg_values s1 kb = None
                             then let s1' = s1\<lparr>tg_values := (tg_values s1)
                                               (kb \<mapsto> PoseValue (pe_pose pe))\<rparr>
                                  in if rb_isStatic rb \<and> rb_hasPosePrior rb
                                     then s1'\<lparr>tg_cout := tg_cout s1' @
                                                [AddingPriorForBody (rb_name rb)],
                                              tg_graph := tg_graph s1' @
                                                [PriorFactor kb (pe_pose pe)
                                                   (pe_noise pe)]\<rparr>
                                     else s1'
                             else s1)
                   in observedTags_loop cam kb kc tags s2)"
    unfolding r_def kc_def kb_def using assms(1-7)
    by (simp add: observedTags_def sym_T_c_t_camSym Symbol_key_camSym
        sym_T_w_b_bodySym Symbol_key_bodySym)
  note loop = observedTags_loop_no_model [OF assms(4,5,8)]
  show ?thesis
    unfolding unfold newPrior_def kb_def [symmetric]
    using neq
    by (simp add: loop Let_def numReprojection_def)
qed

text \<open>The theorem of C9 for camera 0 without a model, body 0 and tag 1 on the empty
  graph.\<close>

theorem observedTags_without_distortion_model_witness:
  "fst (observedTags (cam_ex None) (rb_ex 0) [tag_ex 1] 0 (TagGraph_new 0 0 0)) = Inr ()
   \<and> tg_values (snd (observedTags (cam_ex None) (rb_ex 0) [tag_ex 1] 0 (TagGraph_new 0 0 0)))
        (camKey 0 0) = Some (PoseValue Pose3_identity)
   \<and> tg_values (snd (observedTags (cam_ex None) (rb_ex 0) [tag_ex 1] 0 (TagGraph_new 0 0 0)))
        (bodyKey 0 0) = Some (PoseValue Pose3_identity)
   \<and> tg_graph (snd (observedTags (cam_ex None) (rb_ex 0) [tag_ex 1] 0 (TagGraph_new 0 0 0)))
       = [PriorFactor (bodyKey 0 0) Pose3_identity None]
   \<and> tg_cout (snd (observedTags (cam_ex None) (rb_ex 0) [tag_ex 1] 0 (TagGraph_new 0 0 0)))
       = [AddingPriorForBody ''board'']"
proof -
  have h: "[tag_ex 1] \<noteq> []" "pe_valid (cam_poseEstimate (cam_ex None))"
    "pe_valid (rb_poseEstimate (rb_ex 0))" "cam_radtanModel (cam_ex None) = None"
    "cam_equidistantModel (cam_ex None) = None" "cam_index (cam_ex None) < 8"
    "rb_index (rb_ex 0) < 24"
    "\<forall>t\<in>set [tag_ex 1]. pe_valid (tag_poseEstimate t) \<longrightarrow> tag_id t < 2 ^ 31"
    by (simp_all add: cam_ex_def rb_ex_def tag_ex_def PoseEstimate_of_def)
  have e: "cam_index (cam_ex None) = 0" "cam_isStatic (cam_ex None)" "rb_index (rb_ex 0) = 0"
    "rb_isStatic (rb_ex 0)" "rb_hasPosePrior (rb_ex 0)" "rb_name (rb_ex 0) = ''board''"
    "pe_pose (cam_poseEstimate (cam_ex None)) = Pose3_identity"
    "pe_pose (rb_poseEstimate (rb_ex 0)) = Pose3_identity"
    "pe_noise (rb_poseEstimate (rb_ex 0)) = None"
    "pe_valid (tag_poseEstimate (tag_ex 1))"
    "tg_values (TagGraph_new 0 0 0) = Map.empty" "tg_graph (TagGraph_new 0 0 0) = []"
    "tg_cout (TagGraph_new 0 0 0) = []"
    by (simp_all add: cam_ex_def rb_ex_def tag_ex_def PoseEstimate_of_def TagGraph_new_def)
  show ?thesis
    using observedTags_without_distortion_model [OF h, of 0 "TagGraph_new 0 0 0"]
    by (simp add: e)
qed

section \<open>getTagRelPose\<close>

text \<open>
  Claim C10: the result of \<^verbatim>\<open>getTagRelPose\<close>, found-indicator and pose (or the
  exception of the key conversion), is the same for any two bodies; in particular a tag
  with a non-negative id (below \<open>2 ^ 31\<close> read as unsigned, the ids that the value
  store can hold) that was added through one body is found, with its pose, when
  queried through any other body.
\<close>

theorem getTagRelPose_ignores_body:
  "getTagRelPose b1 tagId pose s = getTagRelPose b2 tagId pose s
   \<and> (tag_id tag < 2 ^ 31 \<and> tg_values s (tagKey tag) = None \<longrightarrow>
        getTagRelPose b2 (tag_id tag) pose (snd (addTags b1 [tag] s))
          = (Inr True, pe_pose (tag_poseEstimate tag)))"
  by (simp add: getTagRelPose_def sym_T_b_o_tagSym Symbol_key_tag at_Pose3_def Let_def)

text \<open>The theorem of C10 for tag 7, added through body 0 and queried through body 1.\<close>

theorem getTagRelPose_ignores_body_witness:
  "getTagRelPose (rb_ex 1) 7 (Pose3 (Rot3 (Point3 1 0 0) (Point3 0 1 0) (Point3 0 0 1)) (Point3 9 9 9))
     (snd (addTags (rb_ex 0) [tag_ex 7] (TagGraph_new 0 0 0)))
   = (Inr True, Pose3_identity)"
proof -
  have h: "tg_values (TagGraph_new 0 0 0) (tagKey (tag_ex 7)) = None"
    by (simp add: TagGraph_new_def)
  have e: "tag_id (tag_ex 7) = 7" "pe_pose (tag_poseEstimate (tag_ex 7)) = Pose3_identity"
    by (simp_all add: tag_ex_def PoseEstimate_of_def)
  show ?thesis
    using getTagRelPose_ignores_body [of "rb_ex 0" 7 _ "TagGraph_new 0 0 0" "rb_ex 1" "tag_ex 7"] h
    by (simp add: e)
qed

section \<open>optimize\<close>

text \<open>\<^verbatim>\<open>observedTags\<close> never assigns \<^verbatim>\<open>numProjectionFactors_\<close>, and neither does any
  other function of the file; \<^verbatim>\<open>optimize\<close> stores the solver's values, keeps the
  factors and multiplies the solver's error by the reciprocal of that member.\<close>

lemma observedTags_loop_numProjectionFactors:
  "tg_numProjectionFactors (snd (observedTags_loop cam kb kc tags s)) = tg_numProjectionFactors s"
proof (induction tags arbitrary: s)
  case Nil
  then show ?case by simp
next
  case (Cons t ts)
  show ?case
  proof (cases "pe_valid (tag_poseEstimate t)")
    case False
    then show ?thesis using Cons.IH by simp
  next
    case True
    show ?thesis
    proof (cases "Symbol_key (tagSym (tag_id t))")
      case (Inl e)
      then show ?thesis using True by (simp add: sym_T_b_o_tagSym)
    next
      case (Inr k)
      then show ?thesis using True Cons.IH by (simp add: sym_T_b_o_tagSym)
    qed
  qed
qed

lemma observedTags_numProjectionFactors:
  "tg_numProjectionFactors (snd (observedTags cam rb tags frame_num s)) = tg_numProjectionFactors s"
proof (cases "tags = [] \<or> \<not> pe_valid (cam_poseEstimate cam) \<or> \<not> pe_valid (rb_poseEstimate rb)")
  case True
  then show ?thesis by (auto simp add: observedTags_def)
next
  case False
  then have pre: "tags \<noteq> []" "pe_valid (cam_poseEstimate cam)" "pe_valid (rb_poseEstimate rb)"
    by simp_all
  show ?thesis
  proof (cases "sym_T_c_t (cam_index cam) (if cam_isStatic cam then 0 else frame_num)")
    case (Inl e)
    then show ?thesis using pre by (simp add: observedTags_def)
  next
    case c: (Inr csym)
    show ?thesis
    proof (cases "Symbol_key csym")
      case (Inl e)
      then show ?thesis using pre c by (simp add: observedTags_def)
    next
      case kc: (Inr ckey)
      show ?thesis
      proof (cases "sym_T_w_b (rb_index rb) (if rb_isStatic rb then 0 else frame_num)")
        case (Inl e)
        then show ?thesis using pre c kc by (simp add: observedTags_def Let_def)
      next
        case b: (Inr bsym)
        show ?thesis
        proof (cases "Symbol_key bsym")
          case (Inl e)
          then show ?thesis using pre c kc b by (simp add: observedTags_def Let_def)
        next
          case (Inr bkey)
          then show ?thesis using pre c kc b
            by (simp add: observedTags_def Let_def observedTags_loop_numProjectionFactors)
        qed
      qed
    qed
  qed
qed

text \<open>
  What \<^verbatim>\<open>optimize\<close> does hold to: the working values become the solver's result,
  the factor collection is the one before the call, and the recorded error is the
  solver's error times the reciprocal of the member \<^verbatim>\<open>numProjectionFactors_\<close> when
  that is positive, the solver's error itself otherwise.
\<close>

theorem optimize_stores_solver_result:
  "tg_values (optimize lmo s) = fst (lmo (tg_graph s) (tg_values s) 100)
   \<and> tg_graph (optimize lmo s) = tg_graph s
   \<and> tg_optimizerError (optimize lmo s) =
       fst (snd (lmo (tg_graph s) (tg_values s) 100)) *
       (if 0 <s tg_numProjectionFactors s
        then 1 / real_of_int (sint (tg_numProjectionFactors s)) else 1)"
  by (simp add: optimize_def tryOptimization_def Let_def split: prod.splits)

text \<open>
  Claim C6. The claim: the recorded error is the solver's error divided by the number
  of Reprojection factors in the graph when there is one. \<open>graph_ex\<close> holds four
  Reprojection factors, added by \<^verbatim>\<open>observedTags\<close>, which leaves the member
  \<^verbatim>\<open>numProjectionFactors_\<close> as it was, here 0. With a solver that reports the error 8,
  \<^verbatim>\<open>optimize\<close> records 8, not 8 / 4. Whatever the member holds when
  \<^verbatim>\<open>observedTags\<close> is called, it holds the same afterwards.
\<close>

theorem optimize_error_not_normalised:
  "numReprojection (tg_graph graph_ex) = 4
   \<and> tg_numProjectionFactors graph_ex = 0
   \<and> tg_optimizerError (optimize lmo_ex graph_ex) = 8
   \<and> tg_graph (optimize lmo_ex graph_ex) = tg_graph graph_ex
   \<and> tg_numProjectionFactors (snd (observedTags cam rb tags frame_num s))
       = tg_numProjectionFactors s"
proof -
  have at_graph_ex:
    "numReprojection (tg_graph graph_ex) = 4
     \<and> tg_numProjectionFactors graph_ex = 0
     \<and> tg_optimizerError (optimize lmo_ex graph_ex) = 8
     \<and> tg_graph (optimize lmo_ex graph_ex) = tg_graph graph_ex"
    by (simp add: ex_defs numReprojection_def optimize_def tryOptimization_def lmo_ex_def)
  have kept:
    "tg_numProjectionFactors (snd (observedTags cam rb tags frame_num s))
       = tg_numProjectionFactors s"
    by (rule observedTags_numProjectionFactors)
  show ?thesis using at_graph_ex kept by blast
qed

section \<open>What holds of the key space\<close>

text \<open>Zero extension from 32 to 64 bits loses nothing; camera symbols differ when index or
  time bucket differ, and so do body symbols.\<close>

lemma ucast_ucast_32_64: "(ucast (ucast x :: 64 word) :: 32 word) = x" for x :: "32 word"
  by (rule bit_word_eqI) (auto simp add: bit_simps)

lemma ucast_32_64_inj: "(ucast (x::32 word) :: 64 word) = ucast y \<Longrightarrow> x = y"
  by (metis ucast_ucast_32_64)

lemma camSym_inj:
  assumes "c < 8" and "c' < 8" and "camSym c f = camSym c' f'"
  shows "c = c' \<and> f = f'"
proof
  have "unat (chr (camSym c f)) = unat (chr (camSym c' f'))" using assms(3) by simp
  then have "unat c = unat c'" using chr_camSym assms(1,2) by simp
  then show "c = c'" by (simp add: word_unat_eq_iff)
  have "index (camSym c f) = index (camSym c' f')" using assms(3) by simp
  then show "f = f'" using assms(1,2)
    by (simp add: camSym_def sym_T_c_t_def MAX_CAM_ID_def not_le [symmetric] ucast_32_64_inj)
qed

lemma bodySym_inj:
  assumes "b < 24" and "b' < 24" and "bodySym b f = bodySym b' f'"
  shows "b = b' \<and> f = f'"
proof
  have "unat (chr (bodySym b f)) = unat (chr (bodySym b' f'))" using assms(3) by simp
  then have "unat b = unat b'" using chr_bodySym assms(1,2) by simp
  then show "b = b'" by (simp add: word_unat_eq_iff)
  have "index (bodySym b f) = index (bodySym b' f')" using assms(3) by simp
  then show "f = f'" using assms(1,2)
    by (simp add: bodySym_def sym_T_w_b_def MAX_BODY_ID_def not_le [symmetric] ucast_32_64_inj)
qed

text \<open>
  The camera-pose encoder is injective on camera indices below 8, the body-pose
  encoder on body indices below 24, the tag-to-body encoder on every tag id, and symbols
  of two of these three kinds never coincide.
\<close>

theorem pose_encoders_injective:
  "(c < 8 \<and> c' < 8 \<and> sym_T_c_t c f = sym_T_c_t c' f' \<longrightarrow> c = c' \<and> f = f')
   \<and> (b < 24 \<and> b' < 24 \<and> sym_T_w_b b f = sym_T_w_b b' f' \<longrightarrow> b = b' \<and> f = f')
   \<and> (sym_T_b_o t = sym_T_b_o t' \<longrightarrow> t = t')
   \<and> (c < 8 \<and> b < 24 \<longrightarrow> sym_T_c_t c f \<noteq> sym_T_w_b b f'
                           \<and> sym_T_c_t c f \<noteq> sym_T_b_o t
                           \<and> sym_T_w_b b f \<noteq> sym_T_b_o t)"
proof -
  have cam: "c = c' \<and> f = f'" if "c < 8" "c' < 8" "sym_T_c_t c f = sym_T_c_t c' f'"
    using that camSym_inj [of c c' f f'] by (simp add: sym_T_c_t_camSym)
  have body: "b = b' \<and> f = f'" if "b < 24" "b' < 24" "sym_T_w_b b f = sym_T_w_b b' f'"
    using that bodySym_inj [of b b' f f'] by (simp add: sym_T_w_b_bodySym)
  have tag: "t = t'" if "sym_T_b_o t = sym_T_b_o t'"
    using that by (simp add: sym_T_b_o_def scast_32_64_inj)
  have cb: "sym_T_c_t c f \<noteq> sym_T_w_b b f'" if "c < 8" "b < 24"
    using that camSym_neq_bodySym [of c b f f']
    by (simp add: sym_T_c_t_camSym sym_T_w_b_bodySym)
  have ct: "sym_T_c_t c f \<noteq> sym_T_b_o t" if "c < 8"
  proof
    assume "sym_T_c_t c f = sym_T_b_o t"
    then have "chr (camSym c f) = 116" using that
      by (simp add: sym_T_c_t_camSym sym_T_b_o_def)
    then have "unat (chr (camSym c f)) = 116" by simp
    moreover have "unat c < 8" using that by (simp add: word_less_nat_alt)
    ultimately show False using chr_camSym [OF that, of f] by arith
  qed
  have bt: "sym_T_w_b b f \<noteq> sym_T_b_o t" if "b < 24"
  proof
    assume "sym_T_w_b b f = sym_T_b_o t"
    then have "chr (bodySym b f) = 116" using that
      by (simp add: sym_T_w_b_bodySym sym_T_b_o_def)
    then have "unat (chr (bodySym b f)) = 116" by simp
    moreover have "unat b < 24" using that by (simp add: word_less_nat_alt)
    ultimately show False using chr_bodySym [OF that, of f] by arith
  qed
  show ?thesis using cam body tag cb ct bt by blast
qed

text \<open>The injectivity theorem at camera 3 in frames 5 and 6, bodies 23 and 22, tags 255
  and 254, and camera 7 against body 7.\<close>

theorem pose_encoders_injective_witness:
  "sym_T_c_t 3 5 \<noteq> sym_T_c_t 3 6 \<and> sym_T_w_b 23 5 \<noteq> sym_T_w_b 22 6
   \<and> sym_T_b_o 255 \<noteq> sym_T_b_o 254 \<and> sym_T_c_t 7 1 \<noteq> sym_T_w_b 7 1"
proof -
  have h: "(3::cint) < 8" "(23::cint) < 24" "(22::cint) < 24" "(7::cint) < 8" "(7::cint) < 24"
    by simp_all
  show ?thesis
    using pose_encoders_injective [of 3 3 5 6 23 22 255 254]
      pose_encoders_injective [of 7 7 1 1 7 7 0 0] h
    by auto
qed

text \<open>The index of a world-corner key as a natural number, when it does not wrap.\<close>

lemma corner_index_unat:
  fixes tagId corner frame :: "32 word"
  assumes "tagId < 255" and "corner < 4" and "unat frame * 1020 + 1019 < 2 ^ 32"
  shows "unat (frame * 255 * 4 + tagId * 4 + corner)
         = unat frame * 1020 + unat tagId * 4 + unat corner"
proof -
  have t: "unat tagId < 255" and c: "unat corner < 4"
    using assms(1,2) by (simp_all add: word_less_nat_alt)
  have small: "unat frame * 1020 + unat tagId * 4 + unat corner < 2 ^ 32"
    using t c assms(3) by arith
  have "unat (frame * 255 * 4 + tagId * 4 + corner)
        = (unat frame * 255 * 4 + unat tagId * 4 + unat corner) mod 2 ^ 32"
    by (simp add: unat_word_ariths mod_simps)
  also have "\<dots> = unat frame * 1020 + unat tagId * 4 + unat corner"
    using small by simp
  finally show ?thesis .
qed

text \<open>
  For tag ids 0..254, corners 0..3 and frames whose keys stay below \<open>2 ^ 32\<close>, the
  world-corner encoder succeeds and the decoder returns the frame, the tag id and the
  corner that were encoded.
\<close>

theorem corner_decoder_left_inverse:
  assumes "tagId < 255" and "corner < 4" and "unat frame * 1020 + 1019 < 2 ^ 32"
  shows "sym_X_w_i tagId corner frame
           = Inr (Symbol (of_char (CHR ''w'')) (ucast (frame * 255 * 4 + tagId * 4 + corner)))
    \<and> X_w_i_sym_to_index
         (Symbol (of_char (CHR ''w'')) (ucast (frame * 255 * 4 + tagId * 4 + corner)))
       = (frame, tagId, corner)"
proof -
  let ?idx = "frame * 255 * 4 + tagId * 4 + corner"
  have t: "unat tagId < 255" and c: "unat corner < 4"
    using assms(1,2) by (simp_all add: word_less_nat_alt)
  have u: "unat ?idx = unat frame * 1020 + unat tagId * 4 + unat corner"
    using assms by (rule corner_index_unat)
  have fr: "?idx div 1020 = frame"
    using u t c by (simp add: word_unat_eq_iff unat_div)
  have rest: "unat (?idx - frame * 1020) = unat tagId * 4 + unat corner"
  proof -
    have "unat frame * 1020 < 2 ^ 32" using assms(3) by arith
    then have f: "unat (frame * 1020) = unat frame * 1020"
      by (simp add: unat_word_ariths)
    have "frame * 1020 \<le> ?idx"
      using u f by (simp add: word_le_nat_alt)
    then have "unat (?idx - frame * 1020) = unat ?idx - unat (frame * 1020)"
      by (rule unat_sub)
    then show ?thesis using u f by simp
  qed
  have tg: "(?idx - frame * 1020) div 4 = tagId"
    using rest c by (simp add: word_unat_eq_iff unat_div)
  have co: "(?idx - frame * 1020) mod 4 = corner"
    using rest c by (simp add: word_unat_eq_iff unat_mod)
  have enc: "sym_X_w_i tagId corner frame = Inr (Symbol (of_char (CHR ''w'')) (ucast ?idx))"
    using assms(1) by (simp add: sym_X_w_i_def MAX_TAG_ID_def word_less_nat_alt)
  have dec: "X_w_i_sym_to_index (Symbol (of_char (CHR ''w'')) (ucast ?idx)) = (frame, tagId, corner)"
    using fr tg co
    by (simp add: X_w_i_sym_to_index_def MAX_TAG_ID_def ucast_ucast_32_64 Let_def)
  show ?thesis using enc dec by simp
qed

text \<open>The left-inverse theorem at tag 254, corner 3, frame 1000.\<close>

theorem corner_decoder_left_inverse_witness:
  "X_w_i_sym_to_index (projr (sym_X_w_i 254 3 1000)) = (1000, 254, 3)"
proof -
  have h: "(254::32 word) < 255" "(3::32 word) < 4" "unat (1000::32 word) * 1020 + 1019 < 2 ^ 32"
    by simp_all
  show ?thesis using corner_decoder_left_inverse [OF h] by simp
qed

section \<open>An exception that leaves the graph changed\<close>

text \<open>
  When the preconditions of \<^verbatim>\<open>observedTags\<close> hold, the camera index is in bounds and
  its key is new, but the body index is 24 or more, the body-pose encoder throws after
  the camera pose has been inserted: the exception leaves the function with the value
  store changed.
\<close>

theorem observedTags_throw_after_camera_insert:
  assumes "tags \<noteq> []" and "pe_valid (cam_poseEstimate cam)"
    and "pe_valid (rb_poseEstimate rb)"
    and "cam_index cam < 8" and "24 \<le> rb_index rb"
    and "tg_values s (camKey (cam_index cam) (if cam_isStatic cam then 0 else frame_num)) = None"
  shows "observedTags cam rb tags frame_num s =
     (Inl (BodyIdxExceedsMax (rb_index rb)),
      s\<lparr>tg_values := (tg_values s)
           (camKey (cam_index cam) (if cam_isStatic cam then 0 else frame_num)
              \<mapsto> PoseValue (pe_pose (cam_poseEstimate cam)))\<rparr>)"
  using assms
  by (simp add: observedTags_def sym_T_c_t_camSym Symbol_key_camSym
      sym_T_w_b_out_of_bounds)

text \<open>The theorem at camera 0, body index 24 and the empty graph.\<close>

theorem observedTags_throw_after_camera_insert_witness:
  "observedTags (cam_ex None) (rb_ex 24) [tag_ex 1] 0 (TagGraph_new 0 0 0) =
     (Inl (BodyIdxExceedsMax 24),
      (TagGraph_new 0 0 0)\<lparr>tg_values := [camKey 0 0 \<mapsto> PoseValue Pose3_identity]\<rparr>)"
proof -
  have h: "[tag_ex 1] \<noteq> []" "pe_valid (cam_poseEstimate (cam_ex None))"
    "pe_valid (rb_poseEstimate (rb_ex 24))" "cam_index (cam_ex None) < 8"
    "24 \<le> rb_index (rb_ex 24)"
    "tg_values (TagGraph_new 0 0 0)
       (camKey (cam_index (cam_ex None)) (if cam_isStatic (cam_ex None) then 0 else 0)) = None"
    by (simp_all add: cam_ex_def rb_ex_def PoseEstimate_of_def TagGraph_new_def)
  have e: "cam_index (cam_ex None) = 0" "rb_index (rb_ex 24) = 24"
    "pe_pose (cam_poseEstimate (cam_ex None)) = Pose3_identity"
    "tg_values (TagGraph_new 0 0 0) = Map.empty"
    by (simp_all add: cam_ex_def rb_ex_def PoseEstimate_of_def TagGraph_new_def)
  show ?thesis
    using observedTags_throw_after_camera_insert [OF h] by (simp add: e)
qed

end
